theory Spec2Isabelle
  imports Complex_Main "HOL-Library.Word"
begin

unbundle bit_operations_syntax

section \<open>Common C and ESP-IDF conventions\<close>

text \<open>
  Every driver call of the firmware returns an \<^verbatim>\<open>esp_err_t\<close>. A call that returns
  \<^verbatim>\<open>ESP_OK\<close> is the right injection \<open>Inr\<close> carrying whatever the call wrote through
  its out-parameters; every other code is a left injection. The codes the sources name are
  constructors, any further code of the framework is \<open>ESP_ERR_CODE n\<close>.
\<close>

datatype esp_err =
    ESP_FAIL
  | ESP_ERR_INVALID_ARG
  | ESP_ERR_INVALID_STATE
  | ESP_ERR_CODE int

type_synonym 'a esp_result = "esp_err + 'a"

text \<open>
  C's \<^verbatim>\<open>/\<close> on \<^verbatim>\<open>int\<close> truncates towards zero, and the result of \<^verbatim>\<open>int\<close>
  arithmetic is kept in 32 bits. Overflow of a signed \<^verbatim>\<open>int\<close> is undefined in C; the
  model wraps it in two's complement, as the target does.
\<close>

definition c_div :: "int \<Rightarrow> int \<Rightarrow> int" where
  "c_div a b = sgn a * sgn b * (\<bar>a\<bar> div \<bar>b\<bar>)"

definition int32 :: "int \<Rightarrow> int" where
  "int32 x = signed_take_bit 31 x"

section \<open>Battery monitor (battery\_monitor.c)\<close>

subsection \<open>Percentage mapping\<close>

text \<open>
  \<^verbatim>\<open>uint8_t battery_voltage_to_percentage(uint16_t voltage_mv)\<close>: both operands of the
  subtraction are \<^verbatim>\<open>uint16_t\<close> and are promoted to \<^verbatim>\<open>int\<close>, the quotient is cast to
  \<^verbatim>\<open>uint8_t\<close>.
\<close>

definition v_min :: "16 word" where
  "v_min = 2700"

definition v_max :: "16 word" where
  "v_max = 4200"

definition battery_voltage_to_percentage :: "16 word \<Rightarrow> 8 word" where
  "battery_voltage_to_percentage voltage_mv =
     (if voltage_mv \<le> v_min then 0
      else if voltage_mv \<ge> v_max then 100
      else word_of_int
             (c_div (int32 (int32 (uint voltage_mv - uint v_min) * 100))
                    (int32 (uint v_max - uint v_min))))"

subsection \<open>Sampling state and hardware\<close>

text \<open>
  The file-scope variables of the battery monitor, the output level of
  \<^verbatim>\<open>BATTERY_ENABLE_GPIO\<close> (the power gate of the divider) and the levels written to it
  so far, oldest first. The ADC handles are opaque to the program and are left out.
\<close>

record battery_state =
  adc_calibrated :: bool
  last_voltage_mv :: "16 word"
  last_percentage :: "8 word"
  battery_enable_gpio :: bool
  gpio_writes :: "bool list"

definition battery_boot :: battery_state where
  "battery_boot =
     \<lparr> adc_calibrated = False, last_voltage_mv = 0, last_percentage = 0,
       battery_enable_gpio = False, gpio_writes = [] \<rparr>"

definition gpio_set_level :: "bool \<Rightarrow> battery_state \<Rightarrow> battery_state" where
  "gpio_set_level level s =
     s\<lparr> battery_enable_gpio := level, gpio_writes := gpio_writes s @ [level] \<rparr>"

text \<open>
  What the hardware answers during one call of \<^verbatim>\<open>battery_read_voltage\<close>:
  \<open>adc_oneshot_read i\<close> is the result of the read in loop iteration \<open>i\<close>, and
  \<open>adc_cali_raw_to_voltage raw\<close> the result of the calibrated conversion.
\<close>

record adc_env =
  adc_oneshot_read :: "nat \<Rightarrow> int esp_result"
  adc_cali_raw_to_voltage :: "int \<Rightarrow> int esp_result"

definition num_samples :: nat where
  "num_samples = 3"

definition BATTERY_VOLTAGE_DIVIDER_R1 :: int where
  "BATTERY_VOLTAGE_DIVIDER_R1 = 100000"

definition BATTERY_VOLTAGE_DIVIDER_R2 :: int where
  "BATTERY_VOLTAGE_DIVIDER_R2 = 100000"

text \<open>
  The sampling loop \<^verbatim>\<open>for (int i = 0; i < num_samples; i++)\<close>, with \<open>k\<close> the
  iterations left. A failed read drives the gate low and leaves the function.
\<close>

fun adc_sample_loop ::
  "adc_env \<Rightarrow> nat \<Rightarrow> nat \<Rightarrow> int \<Rightarrow> battery_state \<Rightarrow> int esp_result \<times> battery_state" where
  "adc_sample_loop env 0 i adc_raw_sum s = (Inr adc_raw_sum, s)"
| "adc_sample_loop env (Suc k) i adc_raw_sum s =
     (case adc_oneshot_read env i of
        Inl ret \<Rightarrow> (Inl ret, gpio_set_level False s)
      | Inr adc_raw \<Rightarrow> adc_sample_loop env k (Suc i) (int32 (adc_raw_sum + adc_raw)) s)"

text \<open>
  \<^verbatim>\<open>esp_err_t battery_read_voltage(uint16_t *voltage_mv)\<close>. The argument says whether
  the pointer is non-null; on \<^verbatim>\<open>ESP_OK\<close> the result carries the value stored through it.
\<close>

definition battery_read_voltage ::
  "bool \<Rightarrow> adc_env \<Rightarrow> battery_state \<Rightarrow> (16 word) esp_result \<times> battery_state" where
  "battery_read_voltage voltage_mv_ok env s =
     (if \<not> voltage_mv_ok then (Inl ESP_ERR_INVALID_ARG, s)
      else
        (let s1 = gpio_set_level True s in
         case adc_sample_loop env num_samples 0 0 s1 of
           (Inl ret, s2) \<Rightarrow> (Inl ret, s2)
         | (Inr adc_raw_sum, s2) \<Rightarrow>
             (let s3 = gpio_set_level False s2;
                  adc_raw_avg = c_div adc_raw_sum (int num_samples)
              in
              case (if adc_calibrated s3 then adc_cali_raw_to_voltage env adc_raw_avg
                    else Inr (c_div (int32 (adc_raw_avg * 3300)) 4095)) of
                Inl ret \<Rightarrow> (Inl ret, s3)
              | Inr voltage_divider_mv \<Rightarrow>
                  (let battery_mv =
                         c_div (int32 (voltage_divider_mv *
                                  int32 (BATTERY_VOLTAGE_DIVIDER_R1 + BATTERY_VOLTAGE_DIVIDER_R2)))
                               BATTERY_VOLTAGE_DIVIDER_R2;
                       voltage_mv = (word_of_int battery_mv :: 16 word)
                   in (Inr voltage_mv,
                       s3\<lparr> last_voltage_mv := voltage_mv,
                           last_percentage := battery_voltage_to_percentage voltage_mv \<rparr>)))))"

definition battery_get_zigbee_voltage :: "battery_state \<Rightarrow> 8 word" where
  "battery_get_zigbee_voltage s = ucast (last_voltage_mv s div 100)"

definition battery_get_zigbee_percentage :: "battery_state \<Rightarrow> 8 word" where
  "battery_get_zigbee_percentage s = last_percentage s * 2"

text \<open>
  What the drivers answer during \<^verbatim>\<open>battery_monitor_init\<close>. The calibration scheme is
  chosen at compile time; \<open>None\<close> stands for a target with neither scheme.
\<close>

record battery_init_env =
  gpio_config :: "unit esp_result"
  adc_oneshot_new_unit :: "unit esp_result"
  adc_oneshot_config_channel :: "unit esp_result"
  adc_cali_create_scheme :: "unit esp_result option"

definition battery_monitor_init ::
  "battery_init_env \<Rightarrow> battery_state \<Rightarrow> unit esp_result \<times> battery_state" where
  "battery_monitor_init env s =
     (case gpio_config env of
        Inl ret \<Rightarrow> (Inl ret, s)
      | Inr _ \<Rightarrow>
          (let s1 = gpio_set_level False s in
           case adc_oneshot_new_unit env of
             Inl ret \<Rightarrow> (Inl ret, s1)
           | Inr _ \<Rightarrow>
               (case adc_oneshot_config_channel env of
                  Inl ret \<Rightarrow> (Inl ret, s1)
                | Inr _ \<Rightarrow>
                    (Inr (),
                     (case adc_cali_create_scheme env of
                        Some (Inr _) \<Rightarrow> s1\<lparr> adc_calibrated := True \<rparr>
                      | _ \<Rightarrow> s1)))))"

text \<open>
  A session of the monitor: the calls of \<^verbatim>\<open>battery_read_voltage\<close> made one after the
  other, each with its argument and what the hardware answers during it.
\<close>

fun battery_reads :: "(bool \<times> adc_env) list \<Rightarrow> battery_state \<Rightarrow> battery_state" where
  "battery_reads [] s = s"
| "battery_reads ((voltage_mv_ok, env) # calls) s =
     battery_reads calls (snd (battery_read_voltage voltage_mv_ok env s))"


section \<open>Anemometer (anemometer.c)\<close>

text \<open>
  The pulse counter shared with the interrupt handler, the start of the current
  measurement window in microseconds (\<^verbatim>\<open>int64_t\<close>) and the interrupt flag.
\<close>

record anemometer_state =
  pulse_count :: "32 word"
  last_measurement_time_us :: "64 word"
  interrupts_enabled :: bool

definition ANEMOMETER_RADIUS_M :: real where
  "ANEMOMETER_RADIUS_M = 0.07"

definition ANEMOMETER_PULSES_PER_REV :: int where
  "ANEMOMETER_PULSES_PER_REV = 1"

definition ANEMOMETER_CALIBRATION :: real where
  "ANEMOMETER_CALIBRATION = 1.18"

text \<open>\<^verbatim>\<open>anemometer_isr_handler\<close>: one run per falling edge of the hall sensor.\<close>

definition anemometer_isr_handler :: "anemometer_state \<Rightarrow> anemometer_state" where
  "anemometer_isr_handler s = s\<lparr> pulse_count := pulse_count s + 1 \<rparr>"

text \<open>
  What the GPIO driver and the timer answer during \<^verbatim>\<open>anemometer_init\<close>.
\<close>

record anemometer_init_env =
  isr_gpio_config :: "unit esp_result"
  gpio_install_isr_service :: "unit esp_result"
  gpio_isr_handler_add :: "unit esp_result"
  init_timer_get_time :: "64 word"

definition anemometer_init ::
  "anemometer_init_env \<Rightarrow> anemometer_state \<Rightarrow> unit esp_result \<times> anemometer_state" where
  "anemometer_init env s =
     (case isr_gpio_config env of
        Inl ret \<Rightarrow> (Inl ret, s)
      | Inr _ \<Rightarrow>
          (case gpio_install_isr_service env of
             Inl ret \<Rightarrow>
               (if ret \<noteq> ESP_ERR_INVALID_STATE then (Inl ret, s)
                else
                  (case gpio_isr_handler_add env of
                     Inl ret \<Rightarrow> (Inl ret, s)
                   | Inr _ \<Rightarrow>
                       (Inr (),
                        s\<lparr> interrupts_enabled := True,
                           last_measurement_time_us := init_timer_get_time env,
                           pulse_count := 0 \<rparr>)))
           | Inr _ \<Rightarrow>
               (case gpio_isr_handler_add env of
                  Inl ret \<Rightarrow> (Inl ret, s)
                | Inr _ \<Rightarrow>
                    (Inr (),
                     s\<lparr> interrupts_enabled := True,
                        last_measurement_time_us := init_timer_get_time env,
                        pulse_count := 0 \<rparr>))))"

text \<open>
  The speed computed from a pulse count and an elapsed time (the last four assignments of
  \<^verbatim>\<open>anemometer_get_wind_speed\<close>). The source computes in single-precision
  \<^verbatim>\<open>float\<close>; the model computes the same expression over the reals, so the rounding
  of each operation is not part of it.
\<close>

definition wind_speed_of :: "32 word \<Rightarrow> 64 word \<Rightarrow> real" where
  "wind_speed_of pulses elapsed_us =
     (let elapsed_s = real_of_int (sint elapsed_us) / 1000000;
          rotations_per_sec =
            real (unat pulses) / (real_of_int ANEMOMETER_PULSES_PER_REV * elapsed_s);
          circumference = 2 * 3.14159 * ANEMOMETER_RADIUS_M
      in rotations_per_sec * circumference * ANEMOMETER_CALIBRATION)"

text \<open>
  \<^verbatim>\<open>esp_err_t anemometer_get_wind_speed(float *speed_ms)\<close>, run without an interrupt
  in between. The first argument says whether the pointer is non-null, the second is what
  \<^verbatim>\<open>esp_timer_get_time()\<close> returns; on \<^verbatim>\<open>ESP_OK\<close> the result carries the value
  stored through the pointer. The subtraction of the two \<^verbatim>\<open>int64_t\<close> wraps.
\<close>

definition anemometer_get_wind_speed ::
  "bool \<Rightarrow> 64 word \<Rightarrow> anemometer_state \<Rightarrow> real esp_result \<times> anemometer_state" where
  "anemometer_get_wind_speed speed_ms_ok current_time_us s =
     (if \<not> speed_ms_ok then (Inl ESP_ERR_INVALID_ARG, s)
      else
        (let elapsed_us = current_time_us - last_measurement_time_us s in
         if sint elapsed_us \<le> 0 then (Inr 0, s)
         else
           (let pulses = pulse_count s;
                s1 = s\<lparr> pulse_count := 0 \<rparr>;
                s2 = s1\<lparr> last_measurement_time_us := current_time_us \<rparr>
            in (Inr (wind_speed_of pulses elapsed_us), s2))))"

definition anemometer_reset :: "64 word \<Rightarrow> anemometer_state \<Rightarrow> anemometer_state" where
  "anemometer_reset current_time_us s =
     s\<lparr> pulse_count := 0, last_measurement_time_us := current_time_us \<rparr>"

subsection \<open>Interrupts between the statements of the flush\<close>

text \<open>
  \<^verbatim>\<open>pulse_count\<close> is \<^verbatim>\<open>volatile\<close>: the read \<^verbatim>\<open>pulses = pulse_count\<close> and the
  write \<^verbatim>\<open>pulse_count = 0\<close> are two separate accesses, and the source neither masks the
  interrupt nor uses an atomic exchange around them. The handler runs to completion on the
  same core, so it can run before the read, between the read and the write, or after the
  write. The machine below runs \<^verbatim>\<open>anemometer_get_wind_speed\<close> in two steps that meet
  between these two accesses; the other statements touch no shared variable and are
  attached to the step they follow or precede.

  \<open>flush_pc\<close> is the position of the main context: outside the function, or between the
  read and the write with the locals \<^verbatim>\<open>pulses\<close> and \<^verbatim>\<open>current_time_us\<close>.
  \<open>edges\<close> counts the runs of the handler and \<open>deltas\<close> lists the value of
  \<^verbatim>\<open>pulses\<close> of every completed flush, oldest first; neither is read by the program.
\<close>

datatype flush_pc = Outside | After_read "32 word" "64 word"

record wind_machine =
  vars :: anemometer_state
  pc :: flush_pc
  edges :: nat
  deltas :: "32 word list"

datatype wind_event =
    Edge
  | Flush_enter "64 word"
  | Flush_resume

fun wind_step :: "wind_event \<Rightarrow> wind_machine \<Rightarrow> wind_machine option" where
  "wind_step Edge m =
     Some (m\<lparr> vars := anemometer_isr_handler (vars m), edges := Suc (edges m) \<rparr>)"
| "wind_step (Flush_enter current_time_us) m =
     (case pc m of
        After_read _ _ \<Rightarrow> None
      | Outside \<Rightarrow>
          (let elapsed_us = current_time_us - last_measurement_time_us (vars m) in
           if sint elapsed_us \<le> 0 then Some m
           else Some (m\<lparr> pc := After_read (pulse_count (vars m)) current_time_us \<rparr>)))"
| "wind_step Flush_resume m =
     (case pc m of
        Outside \<Rightarrow> None
      | After_read pulses current_time_us \<Rightarrow>
          Some (m\<lparr> vars := (vars m)\<lparr> pulse_count := 0,
                                    last_measurement_time_us := current_time_us \<rparr>,
                   pc := Outside,
                   deltas := deltas m @ [pulses] \<rparr>))"

fun wind_run :: "wind_event list \<Rightarrow> wind_machine \<Rightarrow> wind_machine option" where
  "wind_run [] m = Some m"
| "wind_run (e # es) m =
     (case wind_step e m of None \<Rightarrow> None | Some m' \<Rightarrow> wind_run es m')"

definition wind_start :: "anemometer_state \<Rightarrow> wind_machine" where
  "wind_start s = \<lparr> vars = s, pc = Outside, edges = 0, deltas = [] \<rparr>"

text \<open>
  For comparison, the schedules an atomic exchange would allow: the handler never runs
  right after the main context has entered the flush. \<open>accounted\<close> says that the deltas
  taken so far and the pending count add up to the edges counted (in 32 bits), that a
  snapshot held between the read and the write still equals the counter, and that the
  handler is not about to run then.
\<close>

fun undisturbed :: "wind_event list \<Rightarrow> bool" where
  "undisturbed (Flush_enter t # Edge # es) = False"
| "undisturbed (e # es) = undisturbed es"
| "undisturbed [] = True"

definition accounted :: "wind_machine \<Rightarrow> wind_event list \<Rightarrow> bool" where
  "accounted m es \<longleftrightarrow>
     sum_list (deltas m) + pulse_count (vars m) = of_nat (edges m)
     \<and> (case pc m of
          Outside \<Rightarrow> True
        | After_read pulses t \<Rightarrow>
            pulses = pulse_count (vars m) \<and> (case es of Edge # _ \<Rightarrow> False | _ \<Rightarrow> True))"

section \<open>Pressure sensor DPS368 (dps368.c)\<close>

definition DPS368_REG_PRS_CFG :: "8 word" where
  "DPS368_REG_PRS_CFG = 0x06"

definition DPS368_REG_TMP_CFG :: "8 word" where
  "DPS368_REG_TMP_CFG = 0x07"

definition DPS368_REG_MEAS_CFG :: "8 word" where
  "DPS368_REG_MEAS_CFG = 0x08"

definition DPS368_REG_PROD_ID :: "8 word" where
  "DPS368_REG_PROD_ID = 0x0D"

definition DPS368_REG_COEF :: "8 word" where
  "DPS368_REG_COEF = 0x10"

definition DPS368_PM_RATE_8 :: "8 word" where
  "DPS368_PM_RATE_8 = 0x30"

definition DPS368_PM_PRC_8 :: "8 word" where
  "DPS368_PM_PRC_8 = 0x03"

definition DPS368_TMP_RATE_1 :: "8 word" where
  "DPS368_TMP_RATE_1 = 0x00"

definition DPS368_TMP_PRC_1 :: "8 word" where
  "DPS368_TMP_PRC_1 = 0x00"

definition DPS368_MEAS_CONT_BOTH :: "8 word" where
  "DPS368_MEAS_CONT_BOTH = 0x07"

text \<open>
  The file-scope variables of the driver: whether the device handle is non-null, the nine
  calibration coefficients (\<^verbatim>\<open>int32_t\<close>) and the flag.
\<close>

record dps368_state =
  dps368_dev :: bool
  c0 :: "32 word"
  c1 :: "32 word"
  c00 :: "32 word"
  c10 :: "32 word"
  c01 :: "32 word"
  c11 :: "32 word"
  c20 :: "32 word"
  c21 :: "32 word"
  c30 :: "32 word"
  calibrated :: bool

text \<open>
  What the bus answers to the driver: whether \<^verbatim>\<open>i2c_bus_device_create\<close> returns a
  handle, the bytes a read of \<open>len\<close> bytes from a register delivers (by offset), and the
  result of a register write.
\<close>

record dps368_bus =
  i2c_bus_device_create :: bool
  i2c_bus_read_bytes :: "8 word \<Rightarrow> nat \<Rightarrow> (nat \<Rightarrow> 8 word) esp_result"
  i2c_bus_write_byte :: "8 word \<Rightarrow> 8 word \<Rightarrow> unit esp_result"

definition dps368_read_reg :: "dps368_bus \<Rightarrow> 8 word \<Rightarrow> nat \<Rightarrow> (nat \<Rightarrow> 8 word) esp_result" where
  "dps368_read_reg bus reg len = i2c_bus_read_bytes bus reg len"

definition dps368_write_reg :: "dps368_bus \<Rightarrow> 8 word \<Rightarrow> 8 word \<Rightarrow> unit esp_result" where
  "dps368_write_reg bus reg val = i2c_bus_write_byte bus reg val"

text \<open>
  \<^verbatim>\<open>if (c & sign_bit) c -= modulus;\<close> on an \<^verbatim>\<open>int32_t\<close>, the sign extension the driver
  applies to each coefficient.
\<close>

definition sign_extend :: "32 word \<Rightarrow> 32 word \<Rightarrow> 32 word \<Rightarrow> 32 word" where
  "sign_extend sign_bit modulus c = (if c AND sign_bit \<noteq> 0 then c - modulus else c)"

definition u32 :: "8 word \<Rightarrow> 32 word" where
  "u32 b = ucast b"

definition dps368_read_calibration ::
  "dps368_bus \<Rightarrow> dps368_state \<Rightarrow> unit esp_result \<times> dps368_state" where
  "dps368_read_calibration bus s =
     (case dps368_read_reg bus DPS368_REG_COEF 18 of
        Inl ret \<Rightarrow> (Inl ret, s)
      | Inr coef \<Rightarrow>
          (Inr (),
           s\<lparr> c0 := sign_extend 0x800 0x1000
                      (push_bit 4 (u32 (coef 0)) OR (drop_bit 4 (u32 (coef 1)) AND 0x0F)),
              c1 := sign_extend 0x800 0x1000
                      (push_bit 8 (u32 (coef 1) AND 0x0F) OR u32 (coef 2)),
              c00 := sign_extend 0x80000 0x100000
                      (push_bit 12 (u32 (coef 3)) OR push_bit 4 (u32 (coef 4))
                         OR (drop_bit 4 (u32 (coef 5)) AND 0x0F)),
              c10 := sign_extend 0x80000 0x100000
                      (push_bit 16 (u32 (coef 5) AND 0x0F) OR push_bit 8 (u32 (coef 6))
                         OR u32 (coef 7)),
              c01 := sign_extend 0x8000 0x10000 (push_bit 8 (u32 (coef 8)) OR u32 (coef 9)),
              c11 := sign_extend 0x8000 0x10000 (push_bit 8 (u32 (coef 10)) OR u32 (coef 11)),
              c20 := sign_extend 0x8000 0x10000 (push_bit 8 (u32 (coef 12)) OR u32 (coef 13)),
              c21 := sign_extend 0x8000 0x10000 (push_bit 8 (u32 (coef 14)) OR u32 (coef 15)),
              c30 := sign_extend 0x8000 0x10000 (push_bit 8 (u32 (coef 16)) OR u32 (coef 17)),
              calibrated := True \<rparr>))"

text \<open>
  \<^verbatim>\<open>esp_err_t dps368_init(i2c_bus_handle_t i2c_bus)\<close>; the first argument says whether
  the bus handle is non-null.
\<close>

definition dps368_init ::
  "bool \<Rightarrow> dps368_bus \<Rightarrow> dps368_state \<Rightarrow> unit esp_result \<times> dps368_state" where
  "dps368_init i2c_bus_ok bus s =
     (if \<not> i2c_bus_ok then (Inl ESP_ERR_INVALID_ARG, s)
      else
        (let s1 = s\<lparr> dps368_dev := i2c_bus_device_create bus \<rparr> in
         if \<not> dps368_dev s1 then (Inl ESP_FAIL, s1)
         else
           (case dps368_read_reg bus DPS368_REG_PROD_ID 1 of
              Inl ret \<Rightarrow> (Inl ret, s1)
            | Inr data \<Rightarrow>
                (let prod_id = data 0 in
                 if prod_id \<noteq> 0x10 then (Inl ESP_FAIL, s1)
                 else
                   (case dps368_read_calibration bus s1 of
                      (Inl ret, s2) \<Rightarrow> (Inl ret, s2)
                    | (Inr _, s2) \<Rightarrow>
                        (case dps368_write_reg bus DPS368_REG_PRS_CFG
                                (DPS368_PM_RATE_8 OR DPS368_PM_PRC_8) of
                           Inl ret \<Rightarrow> (Inl ret, s2)
                         | Inr _ \<Rightarrow>
                             (case dps368_write_reg bus DPS368_REG_TMP_CFG
                                     (DPS368_TMP_RATE_1 OR DPS368_TMP_PRC_1) of
                                Inl ret \<Rightarrow> (Inl ret, s2)
                              | Inr _ \<Rightarrow>
                                  (case dps368_write_reg bus DPS368_REG_MEAS_CFG
                                          DPS368_MEAS_CONT_BOTH of
                                     Inl ret \<Rightarrow> (Inl ret, s2)
                                   | Inr _ \<Rightarrow> (Inr (), s2)))))))))"

section \<open>Combined sensor BME280 / BMP280 (bme280\_app.c)\<close>

text \<open>
  The three lines \<^verbatim>\<open>bme280_app_init\<close> can write to the log after it has read the chip
  ID, each with the ID it prints.
\<close>

datatype chip_report =
    Detected_BME280 "8 word"
  | Detected_BMP280 "8 word"
  | Unknown_sensor "8 word"

text \<open>
  The variables of the file (whether the handle \<^verbatim>\<open>g_bme280\<close> is non-null, and the flag
  \<^verbatim>\<open>is_bmp280\<close>) and the chip reports logged so far, oldest first.
\<close>

record bme280_app_state =
  g_bme280 :: bool
  is_bmp280 :: bool
  chip_reports :: "chip_report list"

text \<open>
  What the BME280 component and the bus answer during \<^verbatim>\<open>bme280_app_init\<close>:
  whether \<^verbatim>\<open>bme280_create\<close> returns a handle, the result of reading the register
  \<^verbatim>\<open>BME280_REGISTER_CHIPID\<close>, and the results of the two configuration calls.
\<close>

record bme280_bus =
  bme280_create :: bool
  i2c_bus_read_byte_chipid :: "8 word esp_result"
  bme280_set_sampling :: "unit esp_result"
  bme280_read_coefficients :: "unit esp_result"

definition bme280_app_is_bmp280 :: "bme280_app_state \<Rightarrow> bool" where
  "bme280_app_is_bmp280 s = is_bmp280 s"

definition bme280_app_init ::
  "bool \<Rightarrow> bme280_bus \<Rightarrow> bme280_app_state \<Rightarrow> unit esp_result \<times> bme280_app_state" where
  "bme280_app_init i2c_bus_ok bus s =
     (if \<not> i2c_bus_ok then (Inl ESP_ERR_INVALID_ARG, s)
      else
        (let s1 = s\<lparr> g_bme280 := bme280_create bus \<rparr> in
         if \<not> g_bme280 s1 then (Inl ESP_FAIL, s1)
         else
           (case i2c_bus_read_byte_chipid bus of
              Inl err \<Rightarrow> (Inl err, s1)
            | Inr chip_id \<Rightarrow>
                (let s2 =
                       (if chip_id = 0x60 then
                          s1\<lparr> chip_reports := chip_reports s1 @ [Detected_BME280 chip_id],
                              is_bmp280 := False \<rparr>
                        else if chip_id = 0x58 then
                          s1\<lparr> chip_reports := chip_reports s1 @ [Detected_BMP280 chip_id],
                              is_bmp280 := True \<rparr>
                        else
                          s1\<lparr> chip_reports := chip_reports s1 @ [Unknown_sensor chip_id],
                              is_bmp280 := False \<rparr>)
                 in
                 case bme280_set_sampling bus of
                   Inl err \<Rightarrow> (Inl err, s2)
                 | Inr _ \<Rightarrow>
                     (case bme280_read_coefficients bus of
                        Inl err \<Rightarrow> (Inl err, s2)
                      | Inr _ \<Rightarrow> (Inr (), s2))))))"


section \<open>Example hardware answers\<close>

text \<open>
  Concrete answers of the drivers, used to run the model: an ADC that reads 2296 on every
  sample (1850 mV at the divider, 3700 mV at the battery), one whose second read fails, and
  one whose calibrated conversion fails; an initialisation where every driver call succeeds.
\<close>

definition adc_steady :: adc_env where
  "adc_steady =
     \<lparr> adc_oneshot_read = (\<lambda>i. Inr 2296), adc_cali_raw_to_voltage = (\<lambda>raw. Inr 1850) \<rparr>"

definition adc_second_read_fails :: adc_env where
  "adc_second_read_fails =
     \<lparr> adc_oneshot_read = (\<lambda>i. if i = 1 then Inl ESP_FAIL else Inr 2296),
       adc_cali_raw_to_voltage = (\<lambda>raw. Inr 1850) \<rparr>"

definition adc_cali_fails :: adc_env where
  "adc_cali_fails =
     \<lparr> adc_oneshot_read = (\<lambda>i. Inr 2296),
       adc_cali_raw_to_voltage = (\<lambda>raw. Inl (ESP_ERR_CODE 0x106)) \<rparr>"

definition battery_init_ok :: battery_init_env where
  "battery_init_ok =
     \<lparr> gpio_config = Inr (), adc_oneshot_new_unit = Inr (),
       adc_oneshot_config_channel = Inr (), adc_cali_create_scheme = Some (Inr ()) \<rparr>"

definition battery_sampled :: battery_state where
  "battery_sampled =
     \<lparr> adc_calibrated = False, last_voltage_mv = 3700, last_percentage = 66,
       battery_enable_gpio = False, gpio_writes = [False, True, False] \<rparr>"

text \<open>
  For the anemometer: the variables as the C start-up code leaves them, an initialisation at
  time 0 where every driver call succeeds, and a window that opened at 1000 microseconds
  with five pulses pending.
\<close>

definition anemometer_boot :: anemometer_state where
  "anemometer_boot =
     \<lparr> pulse_count = 0, last_measurement_time_us = 0, interrupts_enabled = False \<rparr>"

definition anemometer_init_ok :: anemometer_init_env where
  "anemometer_init_ok =
     \<lparr> isr_gpio_config = Inr (), gpio_install_isr_service = Inr (),
       gpio_isr_handler_add = Inr (), init_timer_get_time = 0 \<rparr>"

definition five_pending :: anemometer_state where
  "five_pending =
     \<lparr> pulse_count = 5, last_measurement_time_us = 1000, interrupts_enabled = True \<rparr>"

text \<open>
  For the sensor probes: the variables at start-up, a BME280-address device on which every
  call succeeds and whose chip-ID register reads \<open>chip_id\<close>, and a DPS368-address device
  on which every transfer succeeds and whose product-ID register reads \<open>prod_id\<close>.
\<close>

definition bme280_app_boot :: bme280_app_state where
  "bme280_app_boot = \<lparr> g_bme280 = False, is_bmp280 = False, chip_reports = [] \<rparr>"

definition bme280_bus_reading :: "8 word \<Rightarrow> bme280_bus" where
  "bme280_bus_reading chip_id =
     \<lparr> bme280_create = True, i2c_bus_read_byte_chipid = Inr chip_id,
       bme280_set_sampling = Inr (), bme280_read_coefficients = Inr () \<rparr>"

definition dps368_boot :: dps368_state where
  "dps368_boot =
     \<lparr> dps368_dev = False, c0 = 0, c1 = 0, c00 = 0, c10 = 0, c01 = 0, c11 = 0, c20 = 0,
       c21 = 0, c30 = 0, calibrated = False \<rparr>"

definition dps368_bus_reading :: "8 word \<Rightarrow> dps368_bus" where
  "dps368_bus_reading prod_id =
     \<lparr> i2c_bus_device_create = True,
       i2c_bus_read_bytes = (\<lambda>reg len. Inr (\<lambda>i. if reg = DPS368_REG_PROD_ID then prod_id else 0)),
       i2c_bus_write_byte = (\<lambda>reg val. Inr ()) \<rparr>"

section \<open>Properties of the battery monitor\<close>

subsection \<open>Arithmetic of the model\<close>

lemma c_div_nonneg: "0 \<le> a \<Longrightarrow> 0 < b \<Longrightarrow> c_div a b = a div b"
  by (cases "a = 0") (simp_all add: c_div_def)

lemma int32_id: "- (2 ^ 31) \<le> x \<Longrightarrow> x < 2 ^ 31 \<Longrightarrow> int32 x = x"
  unfolding int32_def by (simp add: signed_take_bit_int_eq_self_iff)

lemma unat_gt_2700: "2700 < (v :: 16 word) \<Longrightarrow> 2700 < unat v"
  using unat_mono [of 2700 v] by simp

lemma unat_lt_4200: "(v :: 16 word) < 4200 \<Longrightarrow> unat v < 4200"
  using unat_mono [of v 4200] by simp

lemma int_interpolation:
  "2700 < n \<Longrightarrow> (int n - 2700) * 100 div 1500 = int ((n - 2700) * 100 div 1500)"
  by (simp add: zdiv_int of_nat_diff)

lemma unat_word_of_small: "k < 2 ^ 8 \<Longrightarrow> unat (word_of_int (int k) :: 8 word) = k"
  by (simp add: unat_of_nat)

subsection \<open>The percentage mapping\<close>

lemma percentage_between:
  assumes "2700 < v" "v < (4200 :: 16 word)"
  shows "battery_voltage_to_percentage v = word_of_int ((uint v - 2700) * 100 div 1500)"
proof -
  from assms have lo: "2700 < uint v" and hi: "uint v < 4200"
    by (simp_all add: word_less_def)
  have a: "int32 (uint v - 2700) = uint v - 2700"
    using lo hi by (intro int32_id) simp_all
  have b: "int32 ((uint v - 2700) * 100) = (uint v - 2700) * 100"
    using lo hi by (intro int32_id) simp_all
  have c: "int32 1500 = 1500"
    by (intro int32_id) simp_all
  have "c_div ((uint v - 2700) * 100) 1500 = (uint v - 2700) * 100 div 1500"
    using lo by (intro c_div_nonneg) simp_all
  with assms a b c show ?thesis
    by (simp add: battery_voltage_to_percentage_def v_min_def v_max_def not_le not_less)
qed

lemma unat_percentage:
  "unat (battery_voltage_to_percentage v) =
     (if unat v \<le> 2700 then 0 else if 4200 \<le> unat v then 100
      else (unat v - 2700) * 100 div 1500)"
proof -
  consider (low) "v \<le> 2700" | (high) "4200 \<le> v" | (mid) "2700 < v" "v < 4200"
    by (meson not_le)
  then show ?thesis
  proof cases
    case low
    then have "unat v \<le> 2700"
      by (simp add: word_le_nat_alt)
    with low show ?thesis
      by (simp add: battery_voltage_to_percentage_def v_min_def)
  next
    case high
    then have h: "4200 \<le> unat v"
      by (simp add: word_le_nat_alt)
    then have "\<not> v \<le> 2700"
      by (simp add: word_le_nat_alt)
    with high h show ?thesis
      by (simp add: battery_voltage_to_percentage_def v_min_def v_max_def)
  next
    case mid
    have lo: "2700 < unat v"
      using mid(1) by (rule unat_gt_2700)
    have hi: "unat v < 4200"
      using mid(2) by (rule unat_lt_4200)
    have u: "uint v = int (unat v)"
      by (rule uint_nat)
    have eq: "(uint v - 2700) * 100 div 1500 = int ((unat v - 2700) * 100 div 1500)"
      unfolding u using lo by (rule int_interpolation)
    have "(unat v - 2700) * 100 div 1500 < 2 ^ 8"
      using hi by simp
    then have "unat (word_of_int (int ((unat v - 2700) * 100 div 1500)) :: 8 word)
            = (unat v - 2700) * 100 div 1500"
      by (rule unat_word_of_small)
    then have "unat (battery_voltage_to_percentage v) = (unat v - 2700) * 100 div 1500"
      using mid by (simp only: percentage_between eq)
    with lo hi show ?thesis
      by simp
  qed
qed

lemma unat_percentage_le_100: "unat (battery_voltage_to_percentage v) \<le> 100"
  by (simp add: unat_percentage) arith

lemma percentage_mono:
  assumes "v1 \<le> v2"
  shows "battery_voltage_to_percentage v1 \<le> battery_voltage_to_percentage v2"
proof -
  from assms have le: "unat v1 \<le> unat v2"
    by (simp add: word_le_nat_alt)
  have "(unat v1 - 2700) * 100 div 1500 \<le> (unat v2 - 2700) * 100 div 1500"
    using le by (intro div_le_mono) simp
  with le show ?thesis
    by (simp add: word_le_nat_alt unat_percentage) arith
qed

lemma floor_interpolation:
  assumes "2700 < n" "n < (4200::nat)"
  shows "int ((n - 2700) * 100 div 1500) = \<lfloor>(real n - 2700) / (4200 - 2700) * 100\<rfloor>"
proof -
  have "(real n - 2700) / (4200 - 2700) * 100 = real ((n - 2700) * 100) / real 1500"
    using assms by (simp add: of_nat_diff)
  also have "\<lfloor>\<dots>\<rfloor> = int ((n - 2700) * 100 div 1500)"
    by (simp only: floor_divide_of_nat_eq)
  finally show ?thesis by simp
qed

text \<open>
  C3, as stated: with the bounds 2700 mV and 4200 mV, 3700 mV maps to 67. The function
  returns another value, so the statement fails at its own input.
\<close>

theorem battery_percentage_3700_is_not_67:
  "v_min = 2700 \<and> v_max = 4200 \<and> battery_voltage_to_percentage 3700 \<noteq> 67"
  by (simp add: battery_voltage_to_percentage_def v_min_def v_max_def int32_def c_div_def)

text \<open>
  C3, amended: with the bounds 2700 mV and 4200 mV, 3700 mV maps to 66, the linear
  interpolation (3700 - 2700) / (4200 - 2700) = 66.7 % with the fraction dropped by the
  integer division.
\<close>

theorem battery_percentage_3700_is_66:
  "v_min = 2700 \<and> v_max = 4200 \<and> battery_voltage_to_percentage 3700 = 66
     \<and> \<lfloor>(3700 - 2700) / (4200 - 2700) * (100 :: real)\<rfloor> = 66"
  by (simp add: battery_voltage_to_percentage_def v_min_def v_max_def int32_def c_div_def)

text \<open>
  C4: the percentage depends on the voltage alone and never decreases when the voltage
  grows; a voltage of at most 2700 mV maps to 0, one of at least 4200 mV to 100, and a
  voltage strictly between them to the linear interpolation between the two points, with
  the fraction dropped.
\<close>

theorem battery_percentage_monotone_piecewise:
  "(v1 \<le> v2 \<longrightarrow> battery_voltage_to_percentage v1 \<le> battery_voltage_to_percentage v2)
   \<and> (lo \<le> 2700 \<longrightarrow> battery_voltage_to_percentage lo = 0)
   \<and> (4200 \<le> hi \<longrightarrow> battery_voltage_to_percentage hi = 100)
   \<and> (2700 < v \<and> v < 4200 \<longrightarrow>
        int (unat (battery_voltage_to_percentage v))
          = \<lfloor>(real (unat v) - 2700) / (4200 - 2700) * 100\<rfloor>)"
proof (intro conjI impI)
  assume "v1 \<le> v2"
  then show "battery_voltage_to_percentage v1 \<le> battery_voltage_to_percentage v2"
    by (rule percentage_mono)
next
  assume "lo \<le> 2700"
  then show "battery_voltage_to_percentage lo = 0"
    by (simp add: battery_voltage_to_percentage_def v_min_def)
next
  assume h: "4200 \<le> hi"
  then have "\<not> hi \<le> 2700"
    by (simp add: word_le_nat_alt)
  with h show "battery_voltage_to_percentage hi = 100"
    by (simp add: battery_voltage_to_percentage_def v_min_def v_max_def)
next
  assume mid: "2700 < v \<and> v < 4200"
  have lo: "2700 < unat v"
    using mid by (intro unat_gt_2700) simp
  have hi: "unat v < 4200"
    using mid by (intro unat_lt_4200) simp
  from lo hi have "unat (battery_voltage_to_percentage v) = (unat v - 2700) * 100 div 1500"
    by (simp add: unat_percentage)
  with floor_interpolation [OF lo hi]
  show "int (unat (battery_voltage_to_percentage v))
          = \<lfloor>(real (unat v) - 2700) / (4200 - 2700) * 100\<rfloor>"
    by simp
qed

theorem battery_percentage_monotone_piecewise_witness:
  "((3000 :: 16 word) \<le> 3700 \<and> battery_voltage_to_percentage 3000 \<le> battery_voltage_to_percentage 3700)
   \<and> ((2700 :: 16 word) \<le> 2700 \<and> battery_voltage_to_percentage 2700 = 0)
   \<and> ((4200 :: 16 word) \<le> 4200 \<and> battery_voltage_to_percentage 4200 = 100)
   \<and> ((2700 :: 16 word) < 3000 \<and> (3000 :: 16 word) < 4200
        \<and> int (unat (battery_voltage_to_percentage 3000))
            = \<lfloor>(real (unat (3000 :: 16 word)) - 2700) / (4200 - 2700) * 100\<rfloor>)"
  using battery_percentage_monotone_piecewise [of 3000 3700 2700 4200 3000]
  by simp

subsection \<open>Sampling\<close>

lemma gpio_set_level_fields [simp]:
  "battery_enable_gpio (gpio_set_level l s) = l"
  "gpio_writes (gpio_set_level l s) = gpio_writes s @ [l]"
  "last_voltage_mv (gpio_set_level l s) = last_voltage_mv s"
  "last_percentage (gpio_set_level l s) = last_percentage s"
  "adc_calibrated (gpio_set_level l s) = adc_calibrated s"
  by (simp_all add: gpio_set_level_def)

text \<open>The loop leaves the state alone unless a read fails, and then it only drives the gate low.\<close>

lemma adc_sample_loop_state:
  "adc_sample_loop env k i acc s = (r, s') \<Longrightarrow>
     s' = (case r of Inl _ \<Rightarrow> gpio_set_level False s | Inr _ \<Rightarrow> s)"
  by (induction k arbitrary: i acc) (auto split: sum.splits)

lemma battery_read_voltage_gate:
  assumes "battery_read_voltage True env s = (r, s')"
  shows "battery_enable_gpio s' = False \<and> gpio_writes s' = gpio_writes s @ [True, False]"
proof -
  obtain q s2 where loop: "adc_sample_loop env num_samples 0 0 (gpio_set_level True s) = (q, s2)"
    by force
  note st = adc_sample_loop_state [OF loop]
  show ?thesis
  proof (cases q)
    case (Inl ret)
    with assms loop st show ?thesis
      by (auto simp: battery_read_voltage_def)
  next
    case (Inr adc_raw_sum)
    with assms loop st show ?thesis
      by (auto simp: battery_read_voltage_def Let_def split: sum.splits if_splits)
  qed
qed

lemma battery_read_voltage_error_keeps_cache:
  assumes "battery_read_voltage ok env s = (Inl e, s')"
  shows "last_voltage_mv s' = last_voltage_mv s \<and> last_percentage s' = last_percentage s"
proof (cases ok)
  case False
  with assms show ?thesis
    by (simp add: battery_read_voltage_def)
next
  case True
  obtain q s2 where loop: "adc_sample_loop env num_samples 0 0 (gpio_set_level True s) = (q, s2)"
    by force
  note st = adc_sample_loop_state [OF loop]
  show ?thesis
  proof (cases q)
    case (Inl ret)
    with assms loop st True show ?thesis
      by (auto simp: battery_read_voltage_def)
  next
    case (Inr adc_raw_sum)
    with assms loop st True show ?thesis
      by (auto simp: battery_read_voltage_def Let_def split: sum.splits if_splits)
  qed
qed

lemma battery_read_voltage_ok_sets_cache:
  assumes "battery_read_voltage ok env s = (Inr v, s')"
  shows "last_voltage_mv s' = v \<and> last_percentage s' = battery_voltage_to_percentage v"
  using assms
  by (auto simp: battery_read_voltage_def Let_def split: sum.splits if_splits prod.splits)

lemma cache_kept_by_read:
  assumes "last_percentage s = battery_voltage_to_percentage (last_voltage_mv s)"
      and "s' = snd (battery_read_voltage ok env s)"
  shows "last_percentage s' = battery_voltage_to_percentage (last_voltage_mv s')"
proof (cases "fst (battery_read_voltage ok env s)")
  case (Inl e)
  with assms(2) have "battery_read_voltage ok env s = (Inl e, s')"
    by (metis prod.collapse)
  from battery_read_voltage_error_keeps_cache [OF this] assms(1) show ?thesis
    by simp
next
  case (Inr v)
  with assms(2) have "battery_read_voltage ok env s = (Inr v, s')"
    by (metis prod.collapse)
  from battery_read_voltage_ok_sets_cache [OF this] show ?thesis
    by simp
qed

lemma cache_kept_by_reads:
  "last_percentage s = battery_voltage_to_percentage (last_voltage_mv s) \<Longrightarrow>
     last_percentage (battery_reads calls s)
       = battery_voltage_to_percentage (last_voltage_mv (battery_reads calls s))"
proof (induction calls arbitrary: s)
  case Nil
  then show ?case by simp
next
  case (Cons call calls)
  obtain ok env where call: "call = (ok, env)"
    by (cases call)
  have "last_percentage (snd (battery_read_voltage ok env s))
          = battery_voltage_to_percentage (last_voltage_mv (snd (battery_read_voltage ok env s)))"
    using Cons.prems by (rule cache_kept_by_read) simp
  from Cons.IH [OF this] call show ?case
    by simp
qed

lemma cache_kept_by_init:
  "last_voltage_mv (snd (battery_monitor_init env s)) = last_voltage_mv s
     \<and> last_percentage (snd (battery_monitor_init env s)) = last_percentage s"
  by (auto simp: battery_monitor_init_def Let_def split: sum.splits option.splits)

lemma cache_at_boot:
  "last_percentage battery_boot = battery_voltage_to_percentage (last_voltage_mv battery_boot)"
  by (simp add: battery_boot_def battery_voltage_to_percentage_def v_min_def)

lemma unat_twice_percentage:
  "unat (battery_voltage_to_percentage v * 2) = 2 * unat (battery_voltage_to_percentage v)"
  using unat_percentage_le_100 [of v] by (simp add: unat_word_ariths)

lemma adc_steady_run:
  "battery_read_voltage True adc_steady s
     = (Inr 3700,
        s\<lparr> battery_enable_gpio := False, gpio_writes := gpio_writes s @ [True, False],
           last_voltage_mv := 3700, last_percentage := 66 \<rparr>)"
  if "\<not> adc_calibrated s"
  using that
  by (simp add: battery_read_voltage_def adc_steady_def num_samples_def numeral_3_eq_3
      gpio_set_level_def int32_def c_div_def BATTERY_VOLTAGE_DIVIDER_R1_def
      BATTERY_VOLTAGE_DIVIDER_R2_def battery_voltage_to_percentage_def v_min_def v_max_def)

lemma adc_second_read_fails_run:
  "battery_read_voltage True adc_second_read_fails s
     = (Inl ESP_FAIL,
        s\<lparr> battery_enable_gpio := False, gpio_writes := gpio_writes s @ [True, False] \<rparr>)"
  by (simp add: battery_read_voltage_def adc_second_read_fails_def num_samples_def
      numeral_3_eq_3 gpio_set_level_def int32_def)

lemma adc_cali_fails_run:
  "battery_read_voltage True adc_cali_fails s
     = (Inl (ESP_ERR_CODE 0x106),
        s\<lparr> battery_enable_gpio := False, gpio_writes := gpio_writes s @ [True, False] \<rparr>)"
  if "adc_calibrated s"
  using that
  by (simp add: battery_read_voltage_def adc_cali_fails_def num_samples_def
      numeral_3_eq_3 gpio_set_level_def int32_def c_div_def)

text \<open>
  C5: every path of \<^verbatim>\<open>battery_read_voltage\<close> that has enabled the power gate (every call
  with a non-null argument: the successful one, the one whose ADC read fails and the one
  whose calibrated conversion fails) returns with the gate driven low; the gate is written
  exactly twice, high and then low.
\<close>

theorem battery_read_voltage_gate_low:
  "battery_read_voltage True env s = (r, s') \<Longrightarrow>
     \<not> battery_enable_gpio s' \<and> gpio_writes s' = gpio_writes s @ [True, False]"
  using battery_read_voltage_gate by simp

theorem battery_read_voltage_gate_low_witness:
  "fst (battery_read_voltage True adc_steady battery_boot) = Inr 3700
   \<and> \<not> battery_enable_gpio (snd (battery_read_voltage True adc_steady battery_boot))
   \<and> gpio_writes (snd (battery_read_voltage True adc_steady battery_boot)) = [True, False]
   \<and> fst (battery_read_voltage True adc_second_read_fails battery_boot) = Inl ESP_FAIL
   \<and> \<not> battery_enable_gpio (snd (battery_read_voltage True adc_second_read_fails battery_boot))
   \<and> gpio_writes (snd (battery_read_voltage True adc_second_read_fails battery_boot))
       = [True, False]
   \<and> fst (battery_read_voltage True adc_cali_fails (battery_boot\<lparr> adc_calibrated := True \<rparr>))
       = Inl (ESP_ERR_CODE 0x106)
   \<and> \<not> battery_enable_gpio
         (snd (battery_read_voltage True adc_cali_fails (battery_boot\<lparr> adc_calibrated := True \<rparr>)))
   \<and> gpio_writes
         (snd (battery_read_voltage True adc_cali_fails (battery_boot\<lparr> adc_calibrated := True \<rparr>)))
       = [True, False]"
proof -
  have a: "\<not> adc_calibrated battery_boot"
    by (simp add: battery_boot_def)
  have b: "adc_calibrated (battery_boot\<lparr> adc_calibrated := True \<rparr>)"
    by simp
  have w: "gpio_writes battery_boot = []"
       "gpio_writes (battery_boot\<lparr> adc_calibrated := True \<rparr>) = []"
    by (simp_all add: battery_boot_def)
  note r1 = adc_steady_run [OF a]
  note r2 = adc_second_read_fails_run [of battery_boot]
  note r3 = adc_cali_fails_run [OF b]
  from battery_read_voltage_gate_low [OF r1] battery_read_voltage_gate_low [OF r2]
    battery_read_voltage_gate_low [OF r3] w
  show ?thesis
    by (simp add: r1 r2 r3)
qed

text \<open>
  C6: when \<^verbatim>\<open>battery_read_voltage\<close> returns an error, the cached sample is the one of
  the last successful call: \<^verbatim>\<open>last_voltage_mv\<close> and \<^verbatim>\<open>last_percentage\<close> are
  unchanged, and so are the values \<^verbatim>\<open>battery_get_zigbee_voltage\<close> and
  \<^verbatim>\<open>battery_get_zigbee_percentage\<close> report.
\<close>

theorem battery_read_voltage_error_retains_sample:
  "battery_read_voltage voltage_mv_ok env s = (Inl e, s') \<Longrightarrow>
     last_voltage_mv s' = last_voltage_mv s
     \<and> last_percentage s' = last_percentage s
     \<and> battery_get_zigbee_voltage s' = battery_get_zigbee_voltage s
     \<and> battery_get_zigbee_percentage s' = battery_get_zigbee_percentage s"
  using battery_read_voltage_error_keeps_cache
  by (simp add: battery_get_zigbee_voltage_def battery_get_zigbee_percentage_def)

theorem battery_read_voltage_error_retains_sample_witness:
  "fst (battery_read_voltage True adc_second_read_fails battery_sampled) = Inl ESP_FAIL
   \<and> last_voltage_mv (snd (battery_read_voltage True adc_second_read_fails battery_sampled)) = 3700
   \<and> last_percentage (snd (battery_read_voltage True adc_second_read_fails battery_sampled)) = 66
   \<and> battery_get_zigbee_voltage
        (snd (battery_read_voltage True adc_second_read_fails battery_sampled)) = 37
   \<and> battery_get_zigbee_percentage
        (snd (battery_read_voltage True adc_second_read_fails battery_sampled)) = 132"
proof -
  note r = adc_second_read_fails_run [of battery_sampled]
  have "battery_get_zigbee_voltage battery_sampled = 37"
       "battery_get_zigbee_percentage battery_sampled = 132"
       "last_voltage_mv battery_sampled = 3700"
       "last_percentage battery_sampled = 66"
    by (simp_all add: battery_sampled_def battery_get_zigbee_voltage_def
        battery_get_zigbee_percentage_def)
  with battery_read_voltage_error_retains_sample [OF r] show ?thesis
    by (simp add: r)
qed

text \<open>
  C9: after \<^verbatim>\<open>battery_monitor_init\<close> and any sequence of calls of
  \<^verbatim>\<open>battery_read_voltage\<close>, successful or not, \<^verbatim>\<open>last_percentage\<close> is
  \<^verbatim>\<open>battery_voltage_to_percentage(last_voltage_mv)\<close>; so
  \<^verbatim>\<open>battery_get_zigbee_percentage\<close> returns exactly twice that percentage, at most 200,
  and the \<^verbatim>\<open>uint8_t\<close> product does not wrap.
\<close>

theorem battery_percentage_cache_invariant:
  "s = battery_reads calls (snd (battery_monitor_init env battery_boot)) \<Longrightarrow>
     last_percentage s = battery_voltage_to_percentage (last_voltage_mv s)
     \<and> unat (battery_get_zigbee_percentage s)
         = 2 * unat (battery_voltage_to_percentage (last_voltage_mv s))
     \<and> unat (battery_get_zigbee_percentage s) \<le> 200"
proof -
  assume s: "s = battery_reads calls (snd (battery_monitor_init env battery_boot))"
  have "last_percentage (snd (battery_monitor_init env battery_boot))
          = battery_voltage_to_percentage (last_voltage_mv (snd (battery_monitor_init env battery_boot)))"
    using cache_at_boot by (simp add: cache_kept_by_init)
  then have inv: "last_percentage s = battery_voltage_to_percentage (last_voltage_mv s)"
    unfolding s by (rule cache_kept_by_reads)
  have twice: "unat (battery_get_zigbee_percentage s)
                 = 2 * unat (battery_voltage_to_percentage (last_voltage_mv s))"
    by (simp add: battery_get_zigbee_percentage_def inv unat_twice_percentage)
  have "unat (battery_get_zigbee_percentage s) \<le> 200"
    using unat_percentage_le_100 [of "last_voltage_mv s"] by (simp add: twice)
  with inv twice show ?thesis
    by simp
qed

theorem battery_percentage_cache_invariant_witness:
  "last_voltage_mv
     (battery_reads [(True, adc_steady), (True, adc_second_read_fails)]
        (snd (battery_monitor_init battery_init_ok battery_boot))) = 3700
   \<and> last_percentage
     (battery_reads [(True, adc_steady), (True, adc_second_read_fails)]
        (snd (battery_monitor_init battery_init_ok battery_boot)))
       = battery_voltage_to_percentage 3700
   \<and> unat (battery_get_zigbee_percentage
       (battery_reads [(True, adc_steady), (True, adc_second_read_fails)]
          (snd (battery_monitor_init battery_init_ok battery_boot)))) = 132
   \<and> unat (battery_get_zigbee_percentage
       (battery_reads [(True, adc_steady), (True, adc_second_read_fails)]
          (snd (battery_monitor_init battery_init_ok battery_boot)))) \<le> 200"
proof -
  have i: "snd (battery_monitor_init battery_init_ok battery_boot)
             = battery_boot\<lparr> battery_enable_gpio := False, gpio_writes := [False],
                              adc_calibrated := True \<rparr>"
    by (simp add: battery_monitor_init_def battery_init_ok_def battery_boot_def
        gpio_set_level_def)
  have r: "last_voltage_mv (snd (battery_read_voltage True adc_steady
             (battery_boot\<lparr> battery_enable_gpio := False, gpio_writes := [False],
                              adc_calibrated := True \<rparr>))) = 3700"
    by (simp add: battery_read_voltage_def adc_steady_def num_samples_def
        numeral_3_eq_3 gpio_set_level_def int32_def c_div_def BATTERY_VOLTAGE_DIVIDER_R1_def
        BATTERY_VOLTAGE_DIVIDER_R2_def)
  have v: "last_voltage_mv
     (battery_reads [(True, adc_steady), (True, adc_second_read_fails)]
        (snd (battery_monitor_init battery_init_ok battery_boot))) = 3700"
    by (simp add: i adc_second_read_fails_run r)
  have p: "unat (battery_voltage_to_percentage 3700) = 66"
    by (simp add: battery_voltage_to_percentage_def v_min_def v_max_def int32_def c_div_def)
  from battery_percentage_cache_invariant [OF refl, of
      "[(True, adc_steady), (True, adc_second_read_fails)]" battery_init_ok]
  show ?thesis
    by (simp add: v p del: battery_reads.simps)
qed

section \<open>Properties of the anemometer\<close>

lemma wind_speed_of_no_pulses: "wind_speed_of 0 elapsed_us = 0"
  by (simp add: wind_speed_of_def)

lemma isr_handler_runs:
  "(anemometer_isr_handler ^^ n) s = s\<lparr> pulse_count := pulse_count s + of_nat n \<rparr>"
  by (induction n) (simp_all add: anemometer_isr_handler_def add.assoc add.commute)

lemma get_wind_speed_empty_window:
  "sint (current_time_us - last_measurement_time_us s) \<le> 0 \<Longrightarrow>
     anemometer_get_wind_speed True current_time_us s = (Inr 0, s)"
  by (simp add: anemometer_get_wind_speed_def)

lemma get_wind_speed_open_window:
  "0 < sint (current_time_us - last_measurement_time_us s) \<Longrightarrow>
     anemometer_get_wind_speed True current_time_us s
       = (Inr (wind_speed_of (pulse_count s) (current_time_us - last_measurement_time_us s)),
          s\<lparr> pulse_count := 0, last_measurement_time_us := current_time_us \<rparr>)"
  by (simp add: anemometer_get_wind_speed_def Let_def)

text \<open>
  The two steps of the machine, run with no interrupt between them, are the function: the
  machine differs from it only in letting the handler run between the read and the write.
\<close>

lemma wind_enter_resume_is_call:
  assumes "pc m = Outside" "0 < sint (t - last_measurement_time_us (vars m))"
  shows "wind_run [Flush_enter t, Flush_resume] m
           = Some (m\<lparr> vars := snd (anemometer_get_wind_speed True t (vars m)),
                      pc := Outside,
                      deltas := deltas m @ [pulse_count (vars m)] \<rparr>)"
  using assms by (simp add: get_wind_speed_open_window Let_def)

lemma wind_enter_empty_window_is_call:
  assumes "pc m = Outside" "sint (t - last_measurement_time_us (vars m)) \<le> 0"
  shows "wind_step (Flush_enter t) m
           = Some (m\<lparr> vars := snd (anemometer_get_wind_speed True t (vars m)) \<rparr>)"
  using assms by (simp add: get_wind_speed_empty_window Let_def)

text \<open>
  Were the exchange atomic, nothing would be lost: in every run in which the handler never
  runs between the read and the write, the deltas taken and the pending count add up to the
  edges counted, modulo \<open>2 ^ 32\<close>.
\<close>

lemma undisturbed_tail: "undisturbed (e # es) \<Longrightarrow> undisturbed es"
  by (cases e; cases es) (auto elim: undisturbed.elims)

lemma accounted_step:
  assumes "accounted m (e # es)" "undisturbed (e # es)" "wind_step e m = Some m'"
  shows "accounted m' es"
proof (cases e)
  case Edge
  with assms show ?thesis
    by (cases "pc m") (auto simp: accounted_def anemometer_isr_handler_def)
next
  case (Flush_enter t)
  with assms show ?thesis
    by (cases "pc m"; cases es)
       (auto simp: accounted_def Let_def split: if_splits wind_event.splits list.splits)
next
  case Flush_resume
  with assms show ?thesis
    by (cases "pc m") (auto simp: accounted_def)
qed

lemma accounted_run:
  "wind_run es m = Some m' \<Longrightarrow> undisturbed es \<Longrightarrow> accounted m es \<Longrightarrow> accounted m' []"
proof (induction es arbitrary: m)
  case Nil
  then show ?case by simp
next
  case (Cons e es)
  from Cons.prems(1) obtain m1 where step: "wind_step e m = Some m1"
      and rest: "wind_run es m1 = Some m'"
    by (auto split: option.splits)
  have "accounted m1 es"
    using Cons.prems(3,2) step by (rule accounted_step)
  with Cons.IH [OF rest undisturbed_tail [OF Cons.prems(2)]] show ?case
    by simp
qed

proposition undisturbed_flushes_account_for_edges:
  assumes "wind_run es (wind_start s) = Some m" "undisturbed es" "pulse_count s = 0"
  shows "sum_list (deltas m) + pulse_count (vars m) = of_nat (edges m)"
proof -
  have "accounted (wind_start s) es"
    using assms(3) by (simp add: accounted_def wind_start_def)
  with assms(1,2) have "accounted m []"
    by (rule accounted_run)
  then show ?thesis
    by (simp add: accounted_def)
qed

lemma racing_schedule_is_disturbed:
  "\<not> undisturbed
       [Edge, Flush_enter 1000000, Edge, Flush_resume, Flush_enter 2000000, Flush_resume]"
  by simp

text \<open>
  C1, evaluated on the code. After an initialisation at time 0, one edge arrives, a flush
  starts at 1 s and reads \<^verbatim>\<open>pulse_count = 1\<close>, a second edge arrives before the flush
  writes \<^verbatim>\<open>pulse_count = 0\<close>, and a second flush at 2 s runs undisturbed. The handler
  has counted two edges; the two flushes have taken 1 and 0, and nothing is pending: the
  deltas and the pending count no longer add up to the edges counted, the edge that raced
  the first flush is lost.
\<close>

theorem flush_race_loses_edge:
  "wind_run [Edge, Flush_enter 1000000, Edge, Flush_resume, Flush_enter 2000000, Flush_resume]
     (wind_start (snd (anemometer_init anemometer_init_ok anemometer_boot)))
     = Some \<lparr> vars = \<lparr> pulse_count = 0, last_measurement_time_us = 2000000,
                       interrupts_enabled = True \<rparr>,
              pc = Outside, edges = 2, deltas = [1, 0] \<rparr>
   \<and> sum_list [1, 0 :: 32 word] + 0 \<noteq> of_nat 2"
  by (simp add: wind_start_def anemometer_init_def anemometer_init_ok_def anemometer_boot_def
      anemometer_isr_handler_def)

text \<open>
  C2, as stated: of two calls with no edge between them, the second observes zero pulses and
  reports speed 0. With five pulses pending in a window opened at 1000 microseconds, a first
  call at that same instant returns early and takes nothing, and the second call, two
  seconds later, finds the five pulses and reports a speed that is not 0.
\<close>

theorem second_call_after_empty_window_finds_pulses:
  "anemometer_get_wind_speed True 1000 five_pending = (Inr 0, five_pending)
   \<and> pulse_count (snd (anemometer_get_wind_speed True 1000 five_pending)) = 5
   \<and> fst (anemometer_get_wind_speed True 2001000
            (snd (anemometer_get_wind_speed True 1000 five_pending)))
       = Inr (129747667 / 100000000)
   \<and> fst (anemometer_get_wind_speed True 2001000
            (snd (anemometer_get_wind_speed True 1000 five_pending)))
       \<noteq> Inr 0"
  by (simp add: anemometer_get_wind_speed_def five_pending_def wind_speed_of_def
      ANEMOMETER_PULSES_PER_REV_def ANEMOMETER_RADIUS_M_def ANEMOMETER_CALIBRATION_def)

text \<open>
  C2, amended: if the first of two calls with no edge between them finds a positive elapsed
  time (so that it takes and zeroes the pulse count), the second call finds zero pulses and
  reports a wind speed of 0, whenever it is made.
\<close>

theorem second_flush_is_zero:
  assumes "0 < sint (t1 - last_measurement_time_us s)"
  shows "pulse_count (snd (anemometer_get_wind_speed True t1 s)) = 0
     \<and> fst (anemometer_get_wind_speed True t2 (snd (anemometer_get_wind_speed True t1 s)))
         = Inr 0
     \<and> pulse_count
         (snd (anemometer_get_wind_speed True t2 (snd (anemometer_get_wind_speed True t1 s))))
         = 0"
proof -
  let ?s1 = "s\<lparr> pulse_count := 0, last_measurement_time_us := t1 \<rparr>"
  have first: "snd (anemometer_get_wind_speed True t1 s) = ?s1"
    using assms by (simp add: get_wind_speed_open_window)
  have second: "anemometer_get_wind_speed True t2 ?s1
                  = (Inr 0, if sint (t2 - t1) \<le> 0 then ?s1
                            else ?s1\<lparr> last_measurement_time_us := t2 \<rparr>)"
    by (simp add: anemometer_get_wind_speed_def Let_def wind_speed_of_no_pulses)
  show ?thesis
    by (simp add: first second)
qed

theorem second_flush_is_zero_witness:
  "0 < sint (2001000 - last_measurement_time_us five_pending)
   \<and> pulse_count (snd (anemometer_get_wind_speed True 2001000 five_pending)) = 0
   \<and> fst (anemometer_get_wind_speed True 4001000
            (snd (anemometer_get_wind_speed True 2001000 five_pending))) = Inr 0
   \<and> pulse_count
        (snd (anemometer_get_wind_speed True 4001000
               (snd (anemometer_get_wind_speed True 2001000 five_pending)))) = 0"
proof -
  have h: "0 < sint (2001000 - last_measurement_time_us five_pending)"
    by (simp add: five_pending_def)
  from second_flush_is_zero [OF h, of 4001000] h show ?thesis
    by simp
qed

text \<open>
  C7: the handler counts every edge, whatever the time since the previous one: \<open>n\<close> runs add
  \<open>n\<close> to the pulse count and change nothing else. A call that finds a positive elapsed time
  returns the pulses divided by (pulses per revolution times elapsed seconds), times the
  circumference 2 * 3.14159 * radius (the source's value for pi), times the calibration
  factor; it leaves the pulse count at zero and the window starting at the current time.
\<close>

theorem wind_speed_is_pulses_per_elapsed_time:
  "(anemometer_isr_handler ^^ n) s = s\<lparr> pulse_count := pulse_count s + of_nat n \<rparr>
   \<and> (0 < sint (t - last_measurement_time_us s) \<longrightarrow>
        anemometer_get_wind_speed True t s
          = (Inr (real (unat (pulse_count s))
                   / (real_of_int ANEMOMETER_PULSES_PER_REV
                        * (real_of_int (sint (t - last_measurement_time_us s)) / 1000000))
                   * (2 * 3.14159 * ANEMOMETER_RADIUS_M) * ANEMOMETER_CALIBRATION),
             s\<lparr> pulse_count := 0, last_measurement_time_us := t \<rparr>))"
  by (simp add: isr_handler_runs get_wind_speed_open_window wind_speed_of_def)

theorem wind_speed_is_pulses_per_elapsed_time_witness:
  "(anemometer_isr_handler ^^ 5)
      \<lparr> pulse_count = 0, last_measurement_time_us = 1000, interrupts_enabled = True \<rparr>
     = five_pending
   \<and> 0 < sint (2001000 - last_measurement_time_us five_pending)
   \<and> anemometer_get_wind_speed True 2001000 five_pending
       = (Inr (5 / (1 * 2) * (2 * 3.14159 * 0.07) * 1.18),
          \<lparr> pulse_count = 0, last_measurement_time_us = 2001000, interrupts_enabled = True \<rparr>)"
proof -
  have h: "0 < sint (2001000 - last_measurement_time_us five_pending)"
    by (simp add: five_pending_def)
  from wind_speed_is_pulses_per_elapsed_time
         [of 5 "\<lparr> pulse_count = 0, last_measurement_time_us = 1000, interrupts_enabled = True \<rparr>"
             2001000]
       wind_speed_is_pulses_per_elapsed_time [of 0 five_pending 2001000] h
  show ?thesis
    by (simp add: five_pending_def ANEMOMETER_PULSES_PER_REV_def ANEMOMETER_RADIUS_M_def
        ANEMOMETER_CALIBRATION_def)
qed

text \<open>
  C10: a call that finds no elapsed time since the window start (elapsed time at most 0)
  returns \<^verbatim>\<open>ESP_OK\<close> with speed 0 and changes neither the pulse count nor the window
  start; the pending pulses are taken by the next call that finds a positive elapsed time.
\<close>

theorem empty_window_keeps_pending:
  assumes "sint (t - last_measurement_time_us s) \<le> 0"
  shows "anemometer_get_wind_speed True t s = (Inr 0, s)
     \<and> (0 < sint (t2 - last_measurement_time_us s) \<longrightarrow>
          anemometer_get_wind_speed True t2 (snd (anemometer_get_wind_speed True t s))
            = (Inr (wind_speed_of (pulse_count s) (t2 - last_measurement_time_us s)),
               s\<lparr> pulse_count := 0, last_measurement_time_us := t2 \<rparr>))"
  using assms by (simp add: get_wind_speed_empty_window get_wind_speed_open_window)

theorem empty_window_keeps_pending_witness:
  "sint (1000 - last_measurement_time_us five_pending) \<le> 0
   \<and> anemometer_get_wind_speed True 1000 five_pending = (Inr 0, five_pending)
   \<and> 0 < sint (2001000 - last_measurement_time_us five_pending)
   \<and> anemometer_get_wind_speed True 2001000
        (snd (anemometer_get_wind_speed True 1000 five_pending))
       = (Inr (wind_speed_of 5 2000000),
          \<lparr> pulse_count = 0, last_measurement_time_us = 2001000, interrupts_enabled = True \<rparr>)"
proof -
  have h: "sint (1000 - last_measurement_time_us five_pending) \<le> 0"
    by (simp add: five_pending_def)
  have h2: "0 < sint (2001000 - last_measurement_time_us five_pending)"
    by (simp add: five_pending_def)
  note t = empty_window_keeps_pending [OF h, of 2001000]
  have a: "anemometer_get_wind_speed True 1000 five_pending = (Inr 0, five_pending)"
    using t by (rule conjunct1)
  have "anemometer_get_wind_speed True 2001000
          (snd (anemometer_get_wind_speed True 1000 five_pending))
        = (Inr (wind_speed_of (pulse_count five_pending)
                  (2001000 - last_measurement_time_us five_pending)),
           five_pending\<lparr> pulse_count := 0, last_measurement_time_us := 2001000 \<rparr>)"
    using t [THEN conjunct2] h2 by (rule mp)
  then have b: "anemometer_get_wind_speed True 2001000
          (snd (anemometer_get_wind_speed True 1000 five_pending))
        = (Inr (wind_speed_of 5 2000000),
           \<lparr> pulse_count = 0, last_measurement_time_us = 2001000,
             interrupts_enabled = True \<rparr>)"
    by (simp add: five_pending_def)
  from h a h2 b show ?thesis
    by (intro conjI)
qed

section \<open>Properties of the sensor probes\<close>

lemma dps368_init_ok_product_id:
  assumes "dps368_init i2c_bus_ok bus s = (Inr u, s')"
  shows "\<exists>data. i2c_bus_read_bytes bus DPS368_REG_PROD_ID 1 = Inr data \<and> data 0 = 0x10"
proof (cases "dps368_read_reg bus DPS368_REG_PROD_ID 1")
  case (Inl ret)
  with assms show ?thesis
    by (simp add: dps368_init_def Let_def split: if_splits)
next
  case (Inr data)
  with assms have "data 0 = 0x10"
    by (simp add: dps368_init_def Let_def split: if_splits)
  with Inr show ?thesis
    by (simp add: dps368_read_reg_def)
qed

lemma bme280_app_init_reads_chip:
  assumes "bme280_create bus" "i2c_bus_read_byte_chipid bus = Inr chip_id"
  shows "is_bmp280 (snd (bme280_app_init True bus s)) = (chip_id = 0x58)"
    and "chip_reports (snd (bme280_app_init True bus s))
           = chip_reports s @ [if chip_id = 0x60 then Detected_BME280 chip_id
                               else if chip_id = 0x58 then Detected_BMP280 chip_id
                               else Unknown_sensor chip_id]"
    and "fst (bme280_app_init True bus s) = Inr ()
           \<longleftrightarrow> bme280_set_sampling bus = Inr () \<and> bme280_read_coefficients bus = Inr ()"
  using assms by (auto simp: bme280_app_init_def Let_def split: sum.splits)

lemma dps368_bus_reading_0x10_run:
  "fst (dps368_init True (dps368_bus_reading 0x10) dps368_boot) = Inr ()"
  by (simp add: dps368_init_def dps368_bus_reading_def dps368_read_reg_def
      dps368_write_reg_def dps368_read_calibration_def Let_def)

text \<open>
  C8, as stated: a probe accepts a device only when its identity signature matches, so that
  no device satisfies two rules. A device whose chip-ID register reads 0x10 (neither 0x60
  nor 0x58) is accepted by \<^verbatim>\<open>bme280_app_init\<close>, which leaves the BMP280 flag clear exactly
  as for a BME280; 0x10 is also the identity \<^verbatim>\<open>dps368_init\<close> accepts.
\<close>

theorem bme280_probe_accepts_unknown_chip:
  "fst (bme280_app_init True (bme280_bus_reading 0x10) bme280_app_boot) = Inr ()
   \<and> (0x10 :: 8 word) \<noteq> 0x60 \<and> (0x10 :: 8 word) \<noteq> 0x58
   \<and> chip_reports (snd (bme280_app_init True (bme280_bus_reading 0x10) bme280_app_boot))
       = [Unknown_sensor 0x10]
   \<and> bme280_app_is_bmp280 (snd (bme280_app_init True (bme280_bus_reading 0x10) bme280_app_boot))
       = bme280_app_is_bmp280 (snd (bme280_app_init True (bme280_bus_reading 0x60) bme280_app_boot))
   \<and> fst (bme280_app_init True (bme280_bus_reading 0x60) bme280_app_boot) = Inr ()
   \<and> fst (dps368_init True (dps368_bus_reading 0x10) dps368_boot) = Inr ()"
  by (simp add: dps368_bus_reading_0x10_run)
     (simp add: bme280_app_init_def bme280_bus_reading_def bme280_app_boot_def
        bme280_app_is_bmp280_def)

text \<open>
  C8, amended: \<^verbatim>\<open>dps368_init\<close> reports success only if the product-ID register reads
  exactly 0x10. The combined-device probe, once it has read the chip ID, sets the BMP280
  flag exactly when the ID is 0x58, logs a BME280 exactly when it is 0x60 and a BMP280
  exactly when it is 0x58; it rejects no chip ID: whether it reports success depends only on
  the two configuration calls that follow.
\<close>

theorem chip_identity_checks:
  "(dps368_init i2c_bus_ok dbus d = (Inr u, d') \<longrightarrow>
      (\<exists>data. i2c_bus_read_bytes dbus DPS368_REG_PROD_ID 1 = Inr data \<and> data 0 = 0x10))
   \<and> (bme280_create bus \<and> i2c_bus_read_byte_chipid bus = Inr chip_id \<longrightarrow>
        (is_bmp280 (snd (bme280_app_init True bus s)) \<longleftrightarrow> chip_id = 0x58)
        \<and> (chip_reports (snd (bme280_app_init True bus s))
               = chip_reports s @ [Detected_BME280 chip_id] \<longleftrightarrow> chip_id = 0x60)
        \<and> (chip_reports (snd (bme280_app_init True bus s))
               = chip_reports s @ [Detected_BMP280 chip_id] \<longleftrightarrow> chip_id = 0x58)
        \<and> (fst (bme280_app_init True bus s) = Inr ()
              \<longleftrightarrow> bme280_set_sampling bus = Inr () \<and> bme280_read_coefficients bus = Inr ()))"
proof (intro conjI impI)
  assume "dps368_init i2c_bus_ok dbus d = (Inr u, d')"
  then show "\<exists>data. i2c_bus_read_bytes dbus DPS368_REG_PROD_ID 1 = Inr data \<and> data 0 = 0x10"
    by (rule dps368_init_ok_product_id)
next
  assume a: "bme280_create bus \<and> i2c_bus_read_byte_chipid bus = Inr chip_id"
  then show "is_bmp280 (snd (bme280_app_init True bus s)) \<longleftrightarrow> chip_id = 0x58"
    by (simp add: bme280_app_init_reads_chip(1))
  from a show "chip_reports (snd (bme280_app_init True bus s))
                 = chip_reports s @ [Detected_BME280 chip_id] \<longleftrightarrow> chip_id = 0x60"
    by (simp add: bme280_app_init_reads_chip(2))
  from a show "chip_reports (snd (bme280_app_init True bus s))
                 = chip_reports s @ [Detected_BMP280 chip_id] \<longleftrightarrow> chip_id = 0x58"
    by (simp add: bme280_app_init_reads_chip(2))
  from a show "fst (bme280_app_init True bus s) = Inr ()
                 \<longleftrightarrow> bme280_set_sampling bus = Inr () \<and> bme280_read_coefficients bus = Inr ()"
    by (simp add: bme280_app_init_reads_chip(3))
qed

theorem chip_identity_checks_witness:
  "fst (dps368_init True (dps368_bus_reading 0x10) dps368_boot) = Inr ()
   \<and> (\<exists>data. i2c_bus_read_bytes (dps368_bus_reading 0x10) DPS368_REG_PROD_ID 1 = Inr data
         \<and> data 0 = 0x10)
   \<and> bme280_create (bme280_bus_reading 0x58)
   \<and> i2c_bus_read_byte_chipid (bme280_bus_reading 0x58) = Inr 0x58
   \<and> is_bmp280 (snd (bme280_app_init True (bme280_bus_reading 0x58) bme280_app_boot))
   \<and> chip_reports (snd (bme280_app_init True (bme280_bus_reading 0x58) bme280_app_boot))
       = chip_reports bme280_app_boot @ [Detected_BMP280 0x58]
   \<and> fst (bme280_app_init True (bme280_bus_reading 0x58) bme280_app_boot) = Inr ()"
proof -
  have run: "dps368_init True (dps368_bus_reading 0x10) dps368_boot
               = (Inr (), snd (dps368_init True (dps368_bus_reading 0x10) dps368_boot))"
    using dps368_bus_reading_0x10_run by (metis prod.collapse)
  have b: "bme280_create (bme280_bus_reading 0x58)
             \<and> i2c_bus_read_byte_chipid (bme280_bus_reading 0x58) = Inr 0x58"
    by (simp add: bme280_bus_reading_def)
  have c: "bme280_set_sampling (bme280_bus_reading 0x58) = Inr ()
             \<and> bme280_read_coefficients (bme280_bus_reading 0x58) = Inr ()"
    by (simp add: bme280_bus_reading_def)
  note t = chip_identity_checks [of True "dps368_bus_reading 0x10" dps368_boot "()"
             "snd (dps368_init True (dps368_bus_reading 0x10) dps368_boot)"
             "bme280_bus_reading 0x58" "0x58" bme280_app_boot]
  from t run have d: "\<exists>data. i2c_bus_read_bytes (dps368_bus_reading 0x10) DPS368_REG_PROD_ID 1
                         = Inr data \<and> data 0 = 0x10"
    by blast
  from t b c have e:
    "is_bmp280 (snd (bme280_app_init True (bme280_bus_reading 0x58) bme280_app_boot))"
    "chip_reports (snd (bme280_app_init True (bme280_bus_reading 0x58) bme280_app_boot))
       = chip_reports bme280_app_boot @ [Detected_BMP280 0x58]"
    "fst (bme280_app_init True (bme280_bus_reading 0x58) bme280_app_boot) = Inr ()"
    by blast+
  from dps368_bus_reading_0x10_run d b e show ?thesis
    by (intro conjI) simp_all
qed

end
